theory Spec2Isabelle
  imports
    Complex_Main
    "HOL-Library.AList"
    "HOL-Library.Multiset"
    "HOL-Library.Char_ord"
    "HOL-Library.List_Lexorder"
begin

section \<open>Data model of the simulated portfolio (src/src/portfolio.py)\<close>

text \<open>
  Conventions of the embedding.
  \<^item> Python \<open>float\<close> values (prices, cash, rates) are modelled as exact \<open>real\<close> numbers:
    the theorems below are about the arithmetic the code writes down, not about the
    rounding of IEEE doubles. Python \<open>int\<close> (share counts) is \<open>int\<close>.
  \<^item> A Python \<open>dict\<close> with string keys is an association list in insertion order.
    Storing under a held key replaces the value in place, storing under a new key
    appends, \<open>del\<close> removes the key: \<open>AList.update\<close> and \<open>AList.delete\<close>.
  \<^item> \<open>datetime.now()\<close> and the outcome of writing the configuration file are inputs
    of every operation, collected in the record \<open>io\<close>. All readings of the clock within
    one operation return the same time.
  \<^item> Calls of \<open>logger\<close> are returned as a list of log events; a log event carries the
    values that the message formats, before formatting.
\<close>

type_synonym 'v dict = "(string \<times> 'v) list"

definition dict_get :: "'v dict \<Rightarrow> string \<Rightarrow> 'v option" where
  "dict_get d k = map_of d k"

definition dict_set :: "string \<Rightarrow> 'v \<Rightarrow> 'v dict \<Rightarrow> 'v dict" where
  "dict_set k v d = AList.update k v d"

definition dict_del :: "string \<Rightarrow> 'v dict \<Rightarrow> 'v dict" where
  "dict_del k d = AList.delete k d"

definition dict_keys :: "'v dict \<Rightarrow> string list" where
  "dict_keys d = map fst d"

definition dict_values :: "'v dict \<Rightarrow> 'v list" where
  "dict_values d = map snd d"

text \<open>\<open>d.get(key, default)\<close> on a field that may be absent from a document.\<close>

definition get_default :: "'a option \<Rightarrow> 'a \<Rightarrow> 'a" where
  "get_default v dflt = (case v of None \<Rightarrow> dflt | Some x \<Rightarrow> x)"

subsection \<open>Position\<close>

record position =
  code :: string
  name :: string
  shares :: int
  cost_price :: real
  current_price :: real
  buy_date :: string
  last_update :: string
  pnotes :: string  \<comment> \<open>the field \<open>notes\<close> of the source\<close>

definition cost_amount :: "position \<Rightarrow> real" where
  "cost_amount pos = of_int (shares pos) * cost_price pos"

definition market_value :: "position \<Rightarrow> real" where
  "market_value pos = of_int (shares pos) * current_price pos"



subsection \<open>PortfolioConfig\<close>

record portfolio_config =
  initial_capital :: real
  available_cash :: real
  max_single_position_pct :: real
  stop_loss_pct :: real
  take_profit_pct :: real
  max_total_position_pct :: real
  commission_rate :: real
  stamp_duty_rate :: real
  min_commission :: real
  positions :: "position dict"
  created_at :: string
  updated_at :: string

definition total_cost :: "portfolio_config \<Rightarrow> real" where
  "total_cost p = sum_list (map cost_amount (dict_values (positions p)))"

definition total_market_value :: "portfolio_config \<Rightarrow> real" where
  "total_market_value p = sum_list (map market_value (dict_values (positions p)))"

definition total_profit_loss :: "portfolio_config \<Rightarrow> real" where
  "total_profit_loss p = total_market_value p - total_cost p"

definition total_profit_loss_pct :: "portfolio_config \<Rightarrow> real" where
  "total_profit_loss_pct p =
     (if total_cost p = 0 then 0 else (total_profit_loss p / total_cost p) * 100)"

definition total_assets :: "portfolio_config \<Rightarrow> real" where
  "total_assets p = available_cash p + total_market_value p"

definition total_return_pct :: "portfolio_config \<Rightarrow> real" where
  "total_return_pct p =
     (if initial_capital p = 0 then 0
      else ((total_assets p - initial_capital p) / initial_capital p) * 100)"


section \<open>PortfolioManager\<close>

subsection \<open>The environment of an operation\<close>

text \<open>
  \<open>save_config\<close> creates the directory, stamps \<open>updated_at\<close>, then writes the file, all
  inside one \<open>try\<close>: a failure before the stamp leaves the configuration as it was, a
  failure of the write leaves the stamp in place.
\<close>

datatype disk = Mkdir_fails | Write_fails | Written

record io =
  today :: string
  clock :: string
  disk :: disk

text \<open>\<open>datetime.now().strftime('%Y-%m-%d %H:%M:%S')\<close>; its \<open>split()[0]\<close> is \<open>today\<close>.\<close>

definition now :: "io \<Rightarrow> string" where
  "now e = today e @ '' '' @ clock e"

datatype log =
    Info_saved
  | Error_save_failed
  | Info_position_updated string string int real
  | Info_position_added string string int real
  | Warning_position_missing string
  | Warning_exceeds_holding int int
  | Info_position_closed string real
  | Info_position_reduced string int real

type_synonym 'a outcome = "'a \<times> log list \<times> portfolio_config"

definition save_config :: "io \<Rightarrow> portfolio_config \<Rightarrow> bool outcome" where
  "save_config e p =
     (case disk e of
        Mkdir_fails \<Rightarrow> (False, [Error_save_failed], p)
      | Write_fails \<Rightarrow> (False, [Error_save_failed], p\<lparr>updated_at := now e\<rparr>)
      | Written \<Rightarrow> (True, [Info_saved], p\<lparr>updated_at := now e\<rparr>))"

text \<open>Emit log events, then continue with the rest of the operation.\<close>

definition logged :: "log list \<Rightarrow> 'a outcome \<Rightarrow> 'a outcome" where
  "logged ls r = (case r of (v, ls', p) \<Rightarrow> (v, ls @ ls', p))"

subsection \<open>add_position\<close>

definition add_position ::
  "io \<Rightarrow> string \<Rightarrow> string \<Rightarrow> int \<Rightarrow> real \<Rightarrow> string \<Rightarrow> portfolio_config \<Rightarrow> bool outcome" where
  "add_position e c nm n price note p =
     (case dict_get (positions p) c of
        Some pos \<Rightarrow>
          (let total_cost = cost_amount pos + of_int n * price;
               total_shares = shares pos + n;
               pos1 = (if total_shares > 0
                       then pos\<lparr>cost_price := total_cost / of_int total_shares\<rparr>
                       else pos);
               pos2 = pos1\<lparr>shares := total_shares, last_update := now e\<rparr>;
               pos3 = (if note \<noteq> [] then pos2\<lparr>pnotes := note\<rparr> else pos2)
           in logged [Info_position_updated c nm total_shares (cost_price pos3)]
                (save_config e (p\<lparr>positions := dict_set c pos3 (positions p)\<rparr>)))
      | None \<Rightarrow>
          (let pos = \<lparr>code = c, name = nm, shares = n, cost_price = price,
                      current_price = 0, buy_date = today e, last_update = now e,
                      pnotes = note\<rparr>
           in logged [Info_position_added c nm n price]
                (save_config e (p\<lparr>positions := dict_set c pos (positions p)\<rparr>))))"

subsection \<open>reduce_position\<close>

definition reduce_position ::
  "io \<Rightarrow> string \<Rightarrow> int \<Rightarrow> real \<Rightarrow> portfolio_config \<Rightarrow> bool outcome" where
  "reduce_position e c n sell_price p =
     (case dict_get (positions p) c of
        None \<Rightarrow> (False, [Warning_position_missing c], p)
      | Some pos \<Rightarrow>
          if n > shares pos then (False, [Warning_exceeds_holding n (shares pos)], p)
          else
            (let sell_amount = of_int n * sell_price;
                 cost = of_int n * cost_price pos;
                 profit = sell_amount - cost;
                 commission = max (sell_amount * commission_rate p) (min_commission p);
                 stamp_duty = sell_amount * stamp_duty_rate p;
                 net_profit = profit - commission - stamp_duty;
                 pos' = pos\<lparr>shares := shares pos - n, last_update := now e\<rparr>;
                 p1 = p\<lparr>positions := dict_set c pos' (positions p),
                        available_cash :=
                          available_cash p + (sell_amount - commission - stamp_duty)\<rparr>
             in if shares pos' = 0
                then logged [Info_position_closed c net_profit]
                       (save_config e (p1\<lparr>positions := dict_del c (positions p1)\<rparr>))
                else logged [Info_position_reduced c n net_profit]
                       (save_config e p1)))"

subsection \<open>update_prices\<close>

text \<open>
  The loop body of \<open>update_prices\<close> for one entry of \<open>prices\<close>. The source reads the
  clock once per entry; the model uses the same reading for all of them.
\<close>

definition update_price :: "io \<Rightarrow> string \<times> real \<Rightarrow> position dict \<Rightarrow> position dict" where
  "update_price e kv ps =
     (case dict_get ps (fst kv) of
        None \<Rightarrow> ps
      | Some pos \<Rightarrow>
          dict_set (fst kv) (pos\<lparr>current_price := snd kv, last_update := now e\<rparr>) ps)"

definition update_prices :: "io \<Rightarrow> real dict \<Rightarrow> portfolio_config \<Rightarrow> unit outcome" where
  "update_prices e prices p =
     (case save_config e (p\<lparr>positions := fold (update_price e) prices (positions p)\<rparr>) of
        (ok, ls, p') \<Rightarrow> ((), ls, p'))"

text \<open>The three components of what an operation yields.\<close>

definition returned :: "'a outcome \<Rightarrow> 'a" where
  "returned r = fst r"

definition logs_of :: "'a outcome \<Rightarrow> log list" where
  "logs_of r = fst (snd r)"

definition state_of :: "'a outcome \<Rightarrow> portfolio_config" where
  "state_of r = snd (snd r)"

subsection \<open>A sequence of acquisitions of one symbol\<close>





subsection \<open>The ledger invariant\<close>

definition shares_positive :: "portfolio_config \<Rightarrow> bool" where
  "shares_positive p = list_all (\<lambda>pos. shares pos > 0) (dict_values (positions p))"

section \<open>Persisted documents\<close>

text \<open>
  A document is the dictionary that \<open>json.load\<close> returns: every field may be absent
  (\<open>None\<close>), and a field that is present has the type the Account document gives it.
  Iterating over the items of a dictionary and storing each under its own key in a
  fresh dictionary is \<open>map\<close> on the list of items.
\<close>

record position_doc =
  doc_code :: "string option"
  doc_name :: "string option"
  doc_shares :: "int option"
  doc_cost_price :: "real option"
  doc_current_price :: "real option"
  doc_buy_date :: "string option"
  doc_last_update :: "string option"
  doc_notes :: "string option"

record portfolio_doc =
  doc_initial_capital :: "real option"
  doc_available_cash :: "real option"
  doc_max_single_position_pct :: "real option"
  doc_stop_loss_pct :: "real option"
  doc_take_profit_pct :: "real option"
  doc_max_total_position_pct :: "real option"
  doc_commission_rate :: "real option"
  doc_stamp_duty_rate :: "real option"
  doc_min_commission :: "real option"
  doc_positions :: "position_doc dict option"
  doc_created_at :: "string option"
  doc_updated_at :: "string option"

definition Position_to_dict :: "position \<Rightarrow> position_doc" where
  "Position_to_dict pos =
     \<lparr>doc_code = Some (code pos), doc_name = Some (name pos),
      doc_shares = Some (shares pos), doc_cost_price = Some (cost_price pos),
      doc_current_price = Some (current_price pos), doc_buy_date = Some (buy_date pos),
      doc_last_update = Some (last_update pos), doc_notes = Some (pnotes pos)\<rparr>"

definition Position_from_dict :: "position_doc \<Rightarrow> position" where
  "Position_from_dict d =
     \<lparr>code = get_default (doc_code d) [],
      name = get_default (doc_name d) [],
      shares = get_default (doc_shares d) 0,
      cost_price = get_default (doc_cost_price d) 0,
      current_price = get_default (doc_current_price d) 0,
      buy_date = get_default (doc_buy_date d) [],
      last_update = get_default (doc_last_update d) [],
      pnotes = get_default (doc_notes d) []\<rparr>"

text \<open>\<open>PortfolioConfig.__post_init__\<close>, run by every construction of a configuration.\<close>

definition post_init :: "io \<Rightarrow> portfolio_config \<Rightarrow> portfolio_config" where
  "post_init e p =
     p\<lparr>created_at := (if created_at p = [] then now e else created_at p),
       updated_at := now e\<rparr>"

definition PortfolioConfig_to_dict :: "portfolio_config \<Rightarrow> portfolio_doc" where
  "PortfolioConfig_to_dict p =
     \<lparr>doc_initial_capital = Some (initial_capital p),
      doc_available_cash = Some (available_cash p),
      doc_max_single_position_pct = Some (max_single_position_pct p),
      doc_stop_loss_pct = Some (stop_loss_pct p),
      doc_take_profit_pct = Some (take_profit_pct p),
      doc_max_total_position_pct = Some (max_total_position_pct p),
      doc_commission_rate = Some (commission_rate p),
      doc_stamp_duty_rate = Some (stamp_duty_rate p),
      doc_min_commission = Some (min_commission p),
      doc_positions = Some (map (\<lambda>(k, pos). (k, Position_to_dict pos)) (positions p)),
      doc_created_at = Some (created_at p),
      doc_updated_at = Some (updated_at p)\<rparr>"

definition PortfolioConfig_from_dict :: "io \<Rightarrow> portfolio_doc \<Rightarrow> portfolio_config" where
  "PortfolioConfig_from_dict e d =
     post_init e
       \<lparr>initial_capital = get_default (doc_initial_capital d) 100000,
        available_cash = get_default (doc_available_cash d) 100000,
        max_single_position_pct = get_default (doc_max_single_position_pct d) 30,
        stop_loss_pct = get_default (doc_stop_loss_pct d) 8,
        take_profit_pct = get_default (doc_take_profit_pct d) 20,
        max_total_position_pct = get_default (doc_max_total_position_pct d) 80,
        commission_rate = get_default (doc_commission_rate d) 0.0003,
        stamp_duty_rate = get_default (doc_stamp_duty_rate d) 0.001,
        min_commission = get_default (doc_min_commission d) 5,
        positions = map (\<lambda>(k, pd). (k, Position_from_dict pd))
                      (get_default (doc_positions d) []),
        created_at = get_default (doc_created_at d) [],
        updated_at = get_default (doc_updated_at d) []\<rparr>"

text \<open>\<open>PortfolioConfig()\<close>: the field defaults of the dataclass.\<close>

definition new_config :: "io \<Rightarrow> portfolio_config" where
  "new_config e =
     post_init e
       \<lparr>initial_capital = 100000, available_cash = 100000,
        max_single_position_pct = 30, stop_loss_pct = 8, take_profit_pct = 20,
        max_total_position_pct = 80, commission_rate = 0.0003, stamp_duty_rate = 0.001,
        min_commission = 5, positions = [], created_at = [], updated_at = []\<rparr>"

section \<open>Dashboard (src/web/portfolio\_api.py)\<close>








section \<open>Accuracy backtest (PortfolioAPI.get\_ai\_accuracy)\<close>

record snapshot_doc =
  doc_total_assets :: "real option"
  doc_daily_profit_loss :: "real option"
  doc_daily_return_pct :: "real option"
  doc_total_return_pct :: "real option"
  doc_positions_snapshot :: "position_doc dict option"

text \<open>
  The field \<open>prediction\<close> of a record holds one of two fixed texts, for a day with
  and a day without a holding.
\<close>

datatype prediction = Holding | No_holding

record accuracy_record =
  rec_date :: string
  rec_next_date :: string
  rec_prediction :: prediction
  rec_next_day_return :: real
  rec_is_correct :: bool
  rec_total_assets :: real

record tally =
  accuracy_records :: "accuracy_record list"
  total_predictions :: nat
  correct_predictions :: nat

datatype py_error = KeyError

text \<open>The body of the loop over the dates, for one date and the date after it.\<close>

definition grade_day ::
  "string \<Rightarrow> snapshot_doc \<Rightarrow> string \<Rightarrow> snapshot_doc \<Rightarrow> tally \<Rightarrow> tally" where
  "grade_day d current_snap next_date next_snap t =
     (let current_assets = get_default (doc_total_assets current_snap) 0;
          next_assets = get_default (doc_total_assets next_snap) 0
      in if current_assets > 0
         then
           (let next_day_return = (next_assets - current_assets) / current_assets * 100;
                is_up = next_day_return > 0;
                positions_today = get_default (doc_positions_snapshot current_snap) [];
                had_position = length positions_today > 0
            in if had_position
               then
                 (let is_correct = is_up
                  in t\<lparr>total_predictions := total_predictions t + 1,
                       correct_predictions :=
                         (if is_correct then correct_predictions t + 1
                          else correct_predictions t),
                       accuracy_records := accuracy_records t @
                         [\<lparr>rec_date = d, rec_next_date = next_date,
                           rec_prediction = (if had_position then Holding else No_holding),
                           rec_next_day_return = next_day_return,
                           rec_is_correct = is_correct,
                           rec_total_assets = current_assets\<rparr>]\<rparr>)
               else t)
         else t)"

text \<open>
  \<open>for i, date in enumerate(sorted_dates[:-1])\<close> with \<open>next_date = sorted_dates[i + 1]\<close>:
  each date that has a successor, together with that successor. \<open>snapshots[date]\<close>
  raises \<open>KeyError\<close> on a date that is not a key.
\<close>

fun grade_days :: "snapshot_doc dict \<Rightarrow> string list \<Rightarrow> tally \<Rightarrow> py_error + tally" where
  "grade_days snapshots (d # next_date # ds) t =
     (case dict_get snapshots d of
        None \<Rightarrow> Inl KeyError
      | Some current_snap \<Rightarrow>
          (case dict_get snapshots next_date of
             None \<Rightarrow> Inl KeyError
           | Some next_snap \<Rightarrow>
               grade_days snapshots (next_date # ds)
                 (grade_day d current_snap next_date next_snap t)))"
| "grade_days snapshots ds t = Inr t"

record month_stats =
  stat_total :: nat
  stat_correct :: nat

text \<open>The body of the loop that fills \<open>monthly_stats\<close>.\<close>

definition count_month :: "accuracy_record \<Rightarrow> month_stats dict \<Rightarrow> month_stats dict" where
  "count_month r monthly_stats =
     (let month = take 7 (rec_date r);
          stats = (case dict_get monthly_stats month of
                     None \<Rightarrow> \<lparr>stat_total = 0, stat_correct = 0\<rparr>
                   | Some st \<Rightarrow> st);
          stats1 = stats\<lparr>stat_total := stat_total stats + 1\<rparr>;
          stats2 = (if rec_is_correct r
                    then stats1\<lparr>stat_correct := stat_correct stats1 + 1\<rparr> else stats1)
      in dict_set month stats2 monthly_stats)"

record monthly_row =
  row_month :: string
  row_total :: nat
  row_correct :: nat
  row_accuracy :: real

definition monthly_row_of :: "string \<times> month_stats \<Rightarrow> monthly_row" where
  "monthly_row_of kv =
     \<lparr>row_month = fst kv, row_total = stat_total (snd kv),
      row_correct = stat_correct (snd kv),
      row_accuracy =
        (if stat_total (snd kv) > 0
         then real (stat_correct (snd kv)) / real (stat_total (snd kv)) * 100 else 0)\<rparr>"

text \<open>
  \<open>sorted(monthly_stats.items())\<close>: the keys of a dictionary differ, so the pairs are
  ordered by their month.
\<close>

definition monthly_accuracy_of :: "accuracy_record list \<Rightarrow> monthly_row list" where
  "monthly_accuracy_of records =
     map monthly_row_of (sort_key fst (fold count_month records []))"

record accuracy_report =
  rep_total_predictions :: nat
  rep_correct_predictions :: nat
  rep_accuracy_rate :: real
  rep_records :: "accuracy_record list"
  rep_monthly_accuracy :: "monthly_row list"

definition get_ai_accuracy :: "snapshot_doc dict \<Rightarrow> py_error + accuracy_report" where
  "get_ai_accuracy snapshots =
     (let sorted_dates = sort (dict_keys snapshots)
      in case grade_days snapshots sorted_dates
                \<lparr>accuracy_records = [], total_predictions = 0, correct_predictions = 0\<rparr> of
           Inl err \<Rightarrow> Inl err
         | Inr t \<Rightarrow>
             Inr \<lparr>rep_total_predictions = total_predictions t,
                  rep_correct_predictions = correct_predictions t,
                  rep_accuracy_rate =
                    (if total_predictions t > 0
                     then real (correct_predictions t) / real (total_predictions t) * 100
                     else 0),
                  rep_records =
                    drop (length (accuracy_records t) - 30) (accuracy_records t),
                  rep_monthly_accuracy = monthly_accuracy_of (accuracy_records t)\<rparr>)"

text \<open>
  The reading of the snapshot series that the backtest is stated in: the assets of a
  date, whether a position was held on it, and the day it is graded against.
\<close>

definition assets_on :: "snapshot_doc dict \<Rightarrow> string \<Rightarrow> real" where
  "assets_on snapshots d =
     (case dict_get snapshots d of
        None \<Rightarrow> 0 | Some snap \<Rightarrow> get_default (doc_total_assets snap) 0)"

definition held_on :: "snapshot_doc dict \<Rightarrow> string \<Rightarrow> bool" where
  "held_on snapshots d =
     (case dict_get snapshots d of
        None \<Rightarrow> False
      | Some snap \<Rightarrow> get_default (doc_positions_snapshot snap) [] \<noteq> [])"

definition is_prediction :: "snapshot_doc dict \<Rightarrow> string \<times> string \<Rightarrow> bool" where
  "is_prediction snapshots dn = (assets_on snapshots (fst dn) > 0 \<and> held_on snapshots (fst dn))"

definition next_day_return :: "snapshot_doc dict \<Rightarrow> string \<times> string \<Rightarrow> real" where
  "next_day_return snapshots dn =
     (assets_on snapshots (snd dn) - assets_on snapshots (fst dn))
       / assets_on snapshots (fst dn)"

text \<open>Every date of a sorted series with the date that follows it.\<close>

definition consecutive :: "string list \<Rightarrow> (string \<times> string) list" where
  "consecutive ds = zip (butlast ds) (tl ds)"

section \<open>Trade journal and snapshot recorder\<close>

text \<open>
  \<open>trade.py\<close> calls \<open>PortfolioManager.record_trade\<close> and
  \<open>PortfolioManager.take_daily_snapshot\<close>; the class in \<open>src/src/portfolio.py\<close> defines
  neither. Both are modelled from sections 4.2, 4.4 and 7 of the specification, on top
  of \<open>add_position\<close>, \<open>reduce_position\<close> and \<open>total_assets\<close> as the source has them.
\<close>

datatype action = Buy | Sell | Add | Reduce

datatype trade_error = UnknownSymbol | InsufficientShares | InsufficientCash | PersistenceFailure

record trade =
  trade_date :: string
  trade_time :: string
  trade_code :: string
  trade_name :: string
  trade_action :: action
  trade_shares :: int
  trade_price :: real
  trade_amount :: real
  trade_commission :: real
  trade_stamp_duty :: real
  trade_reason :: string

record account =
  portfolio :: portfolio_config
  journal :: "trade list"

text \<open>
  Modelled from the spec: \<open>record_trade\<close> (recordTrade of section 4.2), which is missing
  from the source. For buy and add the total cost, amount plus commission, is checked
  against the available cash before anything is changed; then the ledger acquires, the
  cash is decremented and the account persisted. For sell and reduce the two validation
  errors of dispose are reported, otherwise \<open>reduce_position\<close> settles the sale. The
  trade is appended to the journal. The specification does not say which note the
  acquisition carries; the model passes the reason of the trade.
\<close>

definition record_trade ::
  "io \<Rightarrow> string \<Rightarrow> string \<Rightarrow> action \<Rightarrow> int \<Rightarrow> real \<Rightarrow> string \<Rightarrow> account
     \<Rightarrow> (trade_error + trade) \<times> account" where
  "record_trade e c nm act n price reason acct =
     (let p = portfolio acct;
          amount = of_int n * price;
          commission = max (amount * commission_rate p) (min_commission p);
          is_sale = (act = Sell \<or> act = Reduce);
          stamp_duty = (if is_sale then amount * stamp_duty_rate p else 0);
          tr = \<lparr>trade_date = today e, trade_time = clock e, trade_code = c,
                trade_name = nm, trade_action = act, trade_shares = n,
                trade_price = price, trade_amount = amount,
                trade_commission = commission, trade_stamp_duty = stamp_duty,
                trade_reason = reason\<rparr>
      in if is_sale
         then
           (case dict_get (positions p) c of
              None \<Rightarrow> (Inl UnknownSymbol, acct)
            | Some pos \<Rightarrow>
                if n > shares pos then (Inl InsufficientShares, acct)
                else
                  (let r = reduce_position e c n price p
                   in (if returned r then Inr tr else Inl PersistenceFailure,
                       \<lparr>portfolio = state_of r, journal = journal acct @ [tr]\<rparr>)))
         else if available_cash p - (amount + commission) < 0
         then (Inl InsufficientCash, acct)
         else
           (let p1 = state_of (add_position e c nm n price reason p);
                r = save_config e
                      (p1\<lparr>available_cash := available_cash p1 - (amount + commission)\<rparr>)
            in (if returned r then Inr tr else Inl PersistenceFailure,
                \<lparr>portfolio = state_of r, journal = journal acct @ [tr]\<rparr>)))"

record daily_snapshot =
  snap_total_assets :: real
  snap_daily_profit_loss :: real
  snap_daily_return_pct :: real
  snap_total_return_pct :: real
  snap_positions :: "position dict"

text \<open>
  Modelled from the spec: the lookup of the previous snapshot inside
  \<open>take_daily_snapshot\<close>, which is missing from the source. The previous snapshot is
  the entry of the series with the latest date before the given day.
\<close>

definition previous_snapshot :: "string \<Rightarrow> daily_snapshot dict \<Rightarrow> daily_snapshot option" where
  "previous_snapshot day series =
     (case rev (filter (\<lambda>d. d < day) (sort (dict_keys series))) of
        [] \<Rightarrow> None
      | d # ds \<Rightarrow> dict_get series d)"

text \<open>
  Modelled from the spec: \<open>take_daily_snapshot\<close> (takeDailySnapshot of section 4.4),
  which is missing from the source. The daily profit/loss is today's total assets minus
  those of the previous snapshot, the daily return is that difference divided by the
  previous total assets, as a percentage; the clause "0 if no previous snapshot or
  previous total assets is 0" is read as governing both figures. Today's entry of the
  series is written, or overwritten, with a copy of the positions.
\<close>

definition take_daily_snapshot ::
  "io \<Rightarrow> portfolio_config \<Rightarrow> daily_snapshot dict \<Rightarrow> daily_snapshot \<times> daily_snapshot dict" where
  "take_daily_snapshot e p series =
     (let assets = total_assets p;
          previous =
            (case previous_snapshot (today e) series of
               None \<Rightarrow> None
             | Some s \<Rightarrow> if snap_total_assets s = 0 then None else Some (snap_total_assets s));
          daily_profit_loss = (case previous of None \<Rightarrow> 0 | Some a \<Rightarrow> assets - a);
          daily_return_pct =
            (case previous of None \<Rightarrow> 0 | Some a \<Rightarrow> daily_profit_loss / a * 100);
          snap = \<lparr>snap_total_assets = assets,
                  snap_daily_profit_loss = daily_profit_loss,
                  snap_daily_return_pct = daily_return_pct,
                  snap_total_return_pct = total_return_pct p,
                  snap_positions = positions p\<rparr>
      in (snap, dict_set (today e) snap series))"

section \<open>Example accounts\<close>

definition day1 :: io where
  "day1 = \<lparr>today = ''2024-01-02'', clock = ''09:30:00'', disk = Written\<rparr>"

definition day2 :: io where
  "day2 = \<lparr>today = ''2024-01-03'', clock = ''14:55:00'', disk = Written\<rparr>"

definition widget :: position where
  "widget =
     \<lparr>code = ''AAA'', name = ''Widget'', shares = 1000, cost_price = 1.5,
      current_price = 0, buy_date = ''2024-01-02'', last_update = ''2024-01-02 09:30:00'',
      pnotes = []\<rparr>"

text \<open>The fresh account after \<open>add_position("AAA", "Widget", 1000, 1.50)\<close>.\<close>

definition held_widget :: portfolio_config where
  "held_widget = (new_config day1)\<lparr>positions := [(''AAA'', widget)]\<rparr>"

section \<open>Notions the properties are stated in\<close>

subsection \<open>Acquisitions\<close>




subsection \<open>Documents with missing fields\<close>



text \<open>Example documents, edited by hand: fields are missing.\<close>

definition unpriced :: position_doc where
  "unpriced =
     \<lparr>doc_code = Some ''AAA'', doc_name = Some ''Widget'', doc_shares = Some 100,
      doc_cost_price = Some 1.5, doc_current_price = None, doc_buy_date = None,
      doc_last_update = None, doc_notes = None\<rparr>"




subsection \<open>Purchases and snapshots\<close>

text \<open>What a purchase costs: the amount plus the commission.\<close>

definition total_cost_of :: "portfolio_config \<Rightarrow> int \<Rightarrow> real \<Rightarrow> real" where
  "total_cost_of p n price =
     of_int n * price + max (of_int n * price * commission_rate p) (min_commission p)"

definition fresh_account :: account where
  "fresh_account = \<lparr>portfolio = new_config day1, journal = []\<rparr>"

text \<open>
  Two days of snapshots: the first on the account holding the widget at a current price
  of 0, the second after the price has been set to 2.
\<close>

definition first_snapshot :: daily_snapshot where
  "first_snapshot = fst (take_daily_snapshot day1 held_widget [])"

definition first_series :: "daily_snapshot dict" where
  "first_series = snd (take_daily_snapshot day1 held_widget [])"

definition risen_widget :: portfolio_config where
  "risen_widget = state_of (update_prices day2 [(''AAA'', 2)] held_widget)"

subsection \<open>The backtest of the specification\<close>

text \<open>
  The backtest as the specification words it. A prediction is a date of the sorted
  series that has a successor, positive assets and a non-empty position snapshot; it is
  correct when the return to the next date is positive; the records are tallied as a
  whole and per month, the month being the first seven characters of the date.
\<close>

definition predictions :: "snapshot_doc dict \<Rightarrow> (string \<times> string) list" where
  "predictions snapshots =
     filter (is_prediction snapshots) (consecutive (sort (dict_keys snapshots)))"

definition record_of :: "snapshot_doc dict \<Rightarrow> string \<times> string \<Rightarrow> accuracy_record" where
  "record_of snapshots dn =
     \<lparr>rec_date = fst dn, rec_next_date = snd dn, rec_prediction = Holding,
      rec_next_day_return = next_day_return snapshots dn * 100,
      rec_is_correct = (next_day_return snapshots dn > 0),
      rec_total_assets = assets_on snapshots (fst dn)\<rparr>"

definition graded :: "snapshot_doc dict \<Rightarrow> accuracy_record list" where
  "graded snapshots = map (record_of snapshots) (predictions snapshots)"

definition month_of :: "accuracy_record \<Rightarrow> string" where
  "month_of r = take 7 (rec_date r)"

definition percentage :: "nat \<Rightarrow> nat \<Rightarrow> real" where
  "percentage k n = (if n > 0 then real k / real n * 100 else 0)"

definition month_row :: "accuracy_record list \<Rightarrow> string \<Rightarrow> monthly_row" where
  "month_row rs m =
     \<lparr>row_month = m,
      row_total = length (filter (\<lambda>r. month_of r = m) rs),
      row_correct = length (filter (\<lambda>r. month_of r = m \<and> rec_is_correct r) rs),
      row_accuracy =
        percentage (length (filter (\<lambda>r. month_of r = m \<and> rec_is_correct r) rs))
          (length (filter (\<lambda>r. month_of r = m) rs))\<rparr>"

definition backtest :: "snapshot_doc dict \<Rightarrow> accuracy_report" where
  "backtest snapshots =
     (let rs = graded snapshots
      in \<lparr>rep_total_predictions = length rs,
          rep_correct_predictions = length (filter rec_is_correct rs),
          rep_accuracy_rate = percentage (length (filter rec_is_correct rs)) (length rs),
          rep_records = drop (length rs - 30) rs,
          rep_monthly_accuracy = map (month_row rs) (sort (remdups (map month_of rs)))\<rparr>)"

text \<open>
  Three consecutive days across a month end, a position held on each: the assets rise
  from the first to the second and fall from the second to the third.
\<close>

definition snapshot_with :: "real \<Rightarrow> snapshot_doc" where
  "snapshot_with assets =
     \<lparr>doc_total_assets = Some assets, doc_daily_profit_loss = None,
      doc_daily_return_pct = None, doc_total_return_pct = None,
      doc_positions_snapshot = Some [(''AAA'', unpriced)]\<rparr>"

definition three_days :: "snapshot_doc dict" where
  "three_days =
     [(''2024-02-01'', snapshot_with 102000),
      (''2024-01-31'', snapshot_with 100000),
      (''2024-02-02'', snapshot_with 101000)]"

text \<open>
  What the loop over the dates has accumulated after a list of pairs, and what the
  loop over the records has added to the statistics of one month.
\<close>

definition tally_of :: "snapshot_doc dict \<Rightarrow> (string \<times> string) list \<Rightarrow> tally \<Rightarrow> tally" where
  "tally_of snapshots ps t =
     (let rs = map (record_of snapshots) (filter (is_prediction snapshots) ps)
      in \<lparr>accuracy_records = accuracy_records t @ rs,
          total_predictions = total_predictions t + length rs,
          correct_predictions = correct_predictions t + length (filter rec_is_correct rs)\<rparr>)"

definition no_stats :: month_stats where
  "no_stats = \<lparr>stat_total = 0, stat_correct = 0\<rparr>"

definition bump :: "accuracy_record list \<Rightarrow> string \<Rightarrow> month_stats \<Rightarrow> month_stats" where
  "bump rs m st =
     \<lparr>stat_total = stat_total st + length (filter (\<lambda>r. month_of r = m) rs),
      stat_correct = stat_correct st
        + length (filter (\<lambda>r. month_of r = m \<and> rec_is_correct r) rs)\<rparr>"

definition stats_in :: "month_stats dict \<Rightarrow> string \<Rightarrow> month_stats" where
  "stats_in ms m = (case map_of ms m of None \<Rightarrow> no_stats | Some st \<Rightarrow> st)"

section \<open>Unfolding the model\<close>

lemmas example_defs =
  held_widget_def widget_def new_config_def post_init_def day1_def day2_def now_def

lemmas op_defs =
  dict_get_def dict_set_def dict_del_def save_config_def logged_def
  state_of_def logs_of_def returned_def

lemma held_widget_reached:
  "state_of (add_position day1 ''AAA'' ''Widget'' 1000 1.5 [] (new_config day1)) = held_widget"
  by (simp add: add_position_def example_defs op_defs)

section \<open>Failed disposals leave the account untouched\<close>

text \<open>
  C2. When the symbol is not held, or more shares are requested than are held,
  \<open>reduce_position\<close> returns \<open>False\<close>, logs the warning of that specific failure (position
  missing, or request exceeding the holding) and returns the portfolio exactly as it
  was: positions, cash and every other field.
\<close>

theorem reduce_position_rejected:
  "(dict_get (positions p) c = None \<longrightarrow>
      reduce_position e c n sell_price p = (False, [Warning_position_missing c], p)) \<and>
   (\<forall>pos. dict_get (positions p) c = Some pos \<and> n > shares pos \<longrightarrow>
      reduce_position e c n sell_price p
        = (False, [Warning_exceeds_holding n (shares pos)], p))"
  by (simp add: reduce_position_def)

theorem reduce_position_rejected_witness:
  "dict_get (positions held_widget) ''BBB'' = None \<and>
   reduce_position day2 ''BBB'' 10 1.7 held_widget
     = (False, [Warning_position_missing ''BBB''], held_widget) \<and>
   dict_get (positions held_widget) ''AAA'' = Some widget \<and> 2000 > shares widget \<and>
   reduce_position day2 ''AAA'' 2000 1.7 held_widget
     = (False, [Warning_exceeds_holding 2000 (shares widget)], held_widget)"
proof -
  have absent: "dict_get (positions held_widget) ''BBB'' = None"
    by (simp add: held_widget_def dict_get_def)
  have held: "dict_get (positions held_widget) ''AAA'' = Some widget \<and> 2000 > shares widget"
    by (simp add: held_widget_def dict_get_def widget_def)
  from reduce_position_rejected [of held_widget "''BBB''" day2 10 "1.7"] absent
  have r1: "reduce_position day2 ''BBB'' 10 1.7 held_widget
              = (False, [Warning_position_missing ''BBB''], held_widget)"
    by blast
  from reduce_position_rejected [of held_widget "''AAA''" day2 2000 "1.7"] held
  have r2: "reduce_position day2 ''AAA'' 2000 1.7 held_widget
              = (False, [Warning_exceeds_holding 2000 (shares widget)], held_widget)"
    by blast
  from absent held r1 r2 show ?thesis by blast
qed

section \<open>Settlement of a disposal\<close>

text \<open>
  C4. A disposal of \<open>n\<close> shares of a held symbol at price \<open>sell_price\<close>, with
  \<open>0 < n \<le> held shares\<close>, credits the available cash by the proceeds minus commission
  minus stamp duty, where proceeds are \<open>n * sell_price\<close>, the commission is the larger
  of proceeds times commission rate and the minimum commission, and the stamp duty is
  proceeds times the stamp-duty rate. The net profit it reports (in the log line of the
  sale) is proceeds minus cost minus commission minus stamp duty, the cost being \<open>n\<close>
  times the cost price the position had before the disposal; the current price does not
  enter.
\<close>

theorem reduce_position_settlement:
  assumes "dict_get (positions p) c = Some pos" and "0 < n" and "n \<le> shares pos"
  shows "(let proceeds = of_int n * sell_price;
              cost = of_int n * cost_price pos;
              commission = max (proceeds * commission_rate p) (min_commission p);
              stamp_duty = proceeds * stamp_duty_rate p;
              net_profit = (proceeds - cost) - commission - stamp_duty;
              r = reduce_position e c n sell_price p
          in available_cash (state_of r)
               = available_cash p + (proceeds - commission - stamp_duty) \<and>
             hd (logs_of r)
               = (if n = shares pos then Info_position_closed c net_profit
                  else Info_position_reduced c n net_profit))"
  using assms
  by (auto simp add: reduce_position_def state_of_def logs_of_def Let_def logged_def
        save_config_def split: disk.splits)

theorem reduce_position_settlement_witness:
  "dict_get (positions held_widget) ''AAA'' = Some widget \<and>
   (0::int) < 400 \<and> 400 \<le> shares widget \<and>
   available_cash (state_of (reduce_position day2 ''AAA'' 400 1.7 held_widget))
     = 100000 + (680 - 5 - 0.68) \<and>
   hd (logs_of (reduce_position day2 ''AAA'' 400 1.7 held_widget))
     = Info_position_reduced ''AAA'' 400 (680 - 600 - 5 - 0.68)"
proof -
  have held: "dict_get (positions held_widget) ''AAA'' = Some widget"
    by (simp add: held_widget_def dict_get_def)
  have le: "400 \<le> shares widget"
    by (simp add: widget_def)
  have pos: "(0::int) < 400"
    by simp
  from reduce_position_settlement [OF held pos le, of "1.7" day2]
  show ?thesis using held le
    by (simp add: Let_def held_widget_def widget_def new_config_def post_init_def)
qed

section \<open>Disposing zero shares\<close>

text \<open>
  C6. Disposing zero shares of a held position should be rejected or change nothing.
  \<open>reduce_position\<close> does neither: the request passes both checks, the sale of nothing
  is charged the minimum commission, and the operation reports success. On the account
  holding 1000 shares of AAA with 100000 in cash and a minimum commission of 5, the
  cash afterwards is 99995 and the position row has changed (its update time).
\<close>

theorem reduce_position_zero_shares:
  "returned (reduce_position day2 ''AAA'' 0 1.7 held_widget) = True \<and>
   available_cash held_widget = 100000 \<and>
   available_cash (state_of (reduce_position day2 ''AAA'' 0 1.7 held_widget)) = 99995 \<and>
   positions (state_of (reduce_position day2 ''AAA'' 0 1.7 held_widget))
     \<noteq> positions held_widget"
  by (simp add: reduce_position_def example_defs op_defs Let_def)

text \<open>In general the charge is the minimum commission, whenever that is positive.\<close>

lemma reduce_position_zero_charges:
  assumes "dict_get (positions p) c = Some pos" and "0 \<le> shares pos"
  shows "available_cash (state_of (reduce_position e c 0 sell_price p))
           = available_cash p - max 0 (min_commission p)"
  using assms
  by (auto simp add: reduce_position_def state_of_def Let_def logged_def save_config_def
        split: disk.splits)

section \<open>Weighted-average cost of repeated acquisitions\<close>

lemma positions_save_config [simp]: "positions (state_of (save_config e p)) = positions p"
  by (simp add: save_config_def state_of_def split: disk.splits)

lemma state_of_logged [simp]: "state_of (logged ls r) = state_of r"
  by (cases r) (simp add: logged_def state_of_def)

lemma dict_get_set_same [simp]: "dict_get (dict_set k v d) k = Some v"
  by (simp add: dict_get_def dict_set_def update_conv')

lemma dict_get_set_other: "k \<noteq> k' \<Longrightarrow> dict_get (dict_set k v d) k' = dict_get d k'"
  by (simp add: dict_get_def dict_set_def update_conv')









section \<open>The ledger holds no empty positions\<close>

lemma list_all_update:
  assumes "list_all P (map snd al)" and "P v"
  shows "list_all P (map snd (AList.update k v al))"
  using assms by (induction al) auto

lemma list_all_delete:
  assumes "list_all P (map snd al)"
  shows "list_all P (map snd (AList.delete k al))"
  using assms by (induction al) (auto simp: AList.delete_eq)

lemma list_all_map_of:
  assumes "list_all P (map snd al)" and "map_of al k = Some v"
  shows "P v"
  using assms by (induction al) (auto split: if_splits)

lemma shares_positive_save_config [simp]:
  "shares_positive (state_of (save_config e p)) = shares_positive p"
  by (simp add: shares_positive_def)

lemma add_position_keeps_positive:
  assumes "shares_positive p" and "n > 0"
  shows "shares_positive (state_of (add_position e c nm n price note p))"
proof (cases "dict_get (positions p) c")
  case None
  with assms show ?thesis
    by (simp add: add_position_def Let_def shares_positive_def dict_values_def dict_set_def
          list_all_update)
next
  case (Some pos)
  with assms have "shares pos > 0"
    by (auto simp: shares_positive_def dict_values_def dict_get_def dest: list_all_map_of)
  with Some assms show ?thesis
    by (simp add: add_position_def Let_def shares_positive_def dict_values_def dict_set_def
          list_all_update)
qed

lemma reduce_position_keeps_positive:
  assumes "shares_positive p"
  shows "shares_positive (state_of (reduce_position e c n sell_price p))"
proof (cases "dict_get (positions p) c")
  case None
  with assms show ?thesis by (simp add: reduce_position_def state_of_def)
next
  case (Some pos)
  show ?thesis
  proof (cases "n > shares pos")
    case True
    with Some assms show ?thesis by (simp add: reduce_position_def state_of_def)
  next
    case False
    with Some assms show ?thesis
      by (auto simp add: reduce_position_def Let_def shares_positive_def dict_values_def
            dict_set_def dict_del_def list_all_update list_all_delete delete_update_same)
  qed
qed

lemma update_price_keeps_positive:
  assumes "list_all (\<lambda>pos. shares pos > 0) (map snd ps)"
  shows "list_all (\<lambda>pos. shares pos > 0) (map snd (update_price e kv ps))"
proof (cases "dict_get ps (fst kv)")
  case None
  with assms show ?thesis by (simp add: update_price_def)
next
  case (Some pos)
  with assms have "shares pos > 0"
    by (auto simp: dict_get_def dest: list_all_map_of)
  with Some assms show ?thesis
    by (simp add: update_price_def dict_set_def list_all_update)
qed

lemma fold_update_price_keeps_positive:
  assumes "list_all (\<lambda>pos. shares pos > 0) (map snd ps)"
  shows "list_all (\<lambda>pos. shares pos > 0) (map snd (fold (update_price e) prices ps))"
  using assms by (induction prices arbitrary: ps) (simp_all add: update_price_keeps_positive)

lemma state_of_update_prices:
  "positions (state_of (update_prices e prices p)) = fold (update_price e) prices (positions p)"
  by (simp add: update_prices_def state_of_def save_config_def split: disk.splits)

lemma update_prices_keeps_positive:
  assumes "shares_positive p"
  shows "shares_positive (state_of (update_prices e prices p))"
  using assms
  by (simp add: shares_positive_def dict_values_def state_of_update_prices
        fold_update_price_keeps_positive)

lemma reduce_position_closes:
  assumes "dict_get (positions p) c = Some pos"
  shows "dict_get (positions (state_of (reduce_position e c (shares pos) sell_price p))) c = None"
  using assms
  by (simp add: reduce_position_def Let_def dict_del_def dict_get_def delete_conv')

text \<open>
  C5, as stated, fails: \<open>add_position\<close> takes any share count, and a call with zero
  shares for a symbol that is not held completes, is saved, and leaves a row with zero
  shares.
\<close>

theorem zero_share_row_counterexample:
  "shares_positive (new_config day1) \<and>
   returned (add_position day1 ''AAA'' ''Widget'' 0 1.5 [] (new_config day1)) = True \<and>
   map (\<lambda>kv. (fst kv, shares (snd kv)))
     (positions (state_of (add_position day1 ''AAA'' ''Widget'' 0 1.5 [] (new_config day1))))
     = [(''AAA'', 0)]"
  by (simp add: add_position_def example_defs op_defs shares_positive_def dict_values_def)

text \<open>
  C5, amended. On a ledger in which every position has a positive share count, every
  position still has a positive share count (so none is negative and no zero row
  exists) after \<open>reduce_position\<close>, after \<open>update_prices\<close>, and after \<open>add_position\<close>
  called with a positive number of shares; and a disposal of exactly the held number of
  shares deletes the position.
\<close>

theorem ledger_invariant:
  assumes "shares_positive p"
  shows "(n > 0 \<longrightarrow> shares_positive (state_of (add_position e c nm n price note p))) \<and>
         shares_positive (state_of (reduce_position e c n sell_price p)) \<and>
         shares_positive (state_of (update_prices e prices p)) \<and>
         (\<forall>pos. dict_get (positions p) c = Some pos \<and> n = shares pos \<longrightarrow>
            dict_get (positions (state_of (reduce_position e c n sell_price p))) c = None)"
  using assms
  by (auto simp: add_position_keeps_positive reduce_position_keeps_positive
        update_prices_keeps_positive reduce_position_closes)

theorem ledger_invariant_witness:
  "shares_positive held_widget \<and> (500::int) > 0 \<and>
   shares_positive (state_of (add_position day2 ''AAA'' ''Widget'' 500 1.6 [] held_widget)) \<and>
   shares_positive (state_of (reduce_position day2 ''AAA'' 1000 1.7 held_widget)) \<and>
   shares_positive (state_of (update_prices day2 [(''AAA'', 1.7)] held_widget)) \<and>
   dict_get (positions held_widget) ''AAA'' = Some widget \<and> 1000 = shares widget \<and>
   dict_get (positions (state_of (reduce_position day2 ''AAA'' 1000 1.7 held_widget))) ''AAA'' = None"
proof -
  have inv: "shares_positive held_widget"
    by (simp add: shares_positive_def dict_values_def held_widget_def widget_def)
  have held: "dict_get (positions held_widget) ''AAA'' = Some widget \<and> 1000 = shares widget"
    by (simp add: held_widget_def dict_get_def widget_def)
  from ledger_invariant [OF inv, of 500 day2 "''AAA''" "''Widget''" "1.6" "[]"]
  have a: "shares_positive (state_of (add_position day2 ''AAA'' ''Widget'' 500 1.6 [] held_widget))"
    by simp
  from ledger_invariant [OF inv, of 1000 day2 "''AAA''" _ _ _ "1.7" "[(''AAA'', 1.7)]"] held
  have b: "shares_positive (state_of (reduce_position day2 ''AAA'' 1000 1.7 held_widget))"
    and c: "shares_positive (state_of (update_prices day2 [(''AAA'', 1.7)] held_widget))"
    and d: "dict_get (positions (state_of (reduce_position day2 ''AAA'' 1000 1.7 held_widget))) ''AAA'' = None"
    by blast+
  from inv held a b c d show ?thesis by simp
qed

section \<open>Round trip through the persisted document\<close>

lemma Position_round_trip: "Position_from_dict (Position_to_dict pos) = pos"
  by (simp add: Position_from_dict_def Position_to_dict_def get_default_def)

lemma positions_round_trip:
  "map (\<lambda>(k, pd). (k, Position_from_dict pd)) (map (\<lambda>(k, pos). (k, Position_to_dict pos)) ps) = ps"
  by (induction ps) (auto simp: Position_round_trip)

lemma PortfolioConfig_round_trip_full:
  "PortfolioConfig_from_dict e (PortfolioConfig_to_dict p)
     = p\<lparr>created_at := (if created_at p = [] then now e else created_at p),
         updated_at := now e\<rparr>"
  by (cases p)
     (simp add: PortfolioConfig_from_dict_def PortfolioConfig_to_dict_def get_default_def
        post_init_def positions_round_trip del: map_map)

text \<open>
  C8. Serialising a configuration with \<open>to_dict\<close> and loading the result with
  \<open>from_dict\<close> gives a configuration with the same positions (same keys, same order,
  every field of every position), the same available cash and initial capital, the
  same four risk parameters and the same three fee parameters.
\<close>

theorem PortfolioConfig_round_trip:
  "positions (PortfolioConfig_from_dict e (PortfolioConfig_to_dict p)) = positions p \<and>
   available_cash (PortfolioConfig_from_dict e (PortfolioConfig_to_dict p)) = available_cash p \<and>
   initial_capital (PortfolioConfig_from_dict e (PortfolioConfig_to_dict p)) = initial_capital p \<and>
   max_single_position_pct (PortfolioConfig_from_dict e (PortfolioConfig_to_dict p))
     = max_single_position_pct p \<and>
   stop_loss_pct (PortfolioConfig_from_dict e (PortfolioConfig_to_dict p)) = stop_loss_pct p \<and>
   take_profit_pct (PortfolioConfig_from_dict e (PortfolioConfig_to_dict p)) = take_profit_pct p \<and>
   max_total_position_pct (PortfolioConfig_from_dict e (PortfolioConfig_to_dict p))
     = max_total_position_pct p \<and>
   commission_rate (PortfolioConfig_from_dict e (PortfolioConfig_to_dict p)) = commission_rate p \<and>
   stamp_duty_rate (PortfolioConfig_from_dict e (PortfolioConfig_to_dict p)) = stamp_duty_rate p \<and>
   min_commission (PortfolioConfig_from_dict e (PortfolioConfig_to_dict p)) = min_commission p"
  by (simp add: PortfolioConfig_round_trip_full)

section \<open>The dashboard against the loaded configuration\<close>
















section \<open>Acquisitions through the trade journal\<close>

lemma available_cash_save_config [simp]:
  "available_cash (state_of (save_config e p)) = available_cash p"
  by (simp add: save_config_def state_of_def split: disk.splits)

lemma available_cash_add_position [simp]:
  "available_cash (state_of (add_position e c nm n price note p)) = available_cash p"
  by (simp add: add_position_def Let_def split: option.splits)

text \<open>
  C3. A buy or add whose total cost, the amount plus the commission (the larger of
  amount times commission rate and the minimum commission), exceeds the available cash
  fails with \<open>InsufficientCash\<close> and returns the account as it was; one that is
  accepted decrements the cash by exactly the total cost; and no buy or add takes a
  non-negative available cash below zero.
\<close>

theorem record_trade_insufficient_cash:
  assumes "act = Buy \<or> act = Add"
  shows "(total_cost_of (portfolio acct) n price > available_cash (portfolio acct) \<longrightarrow>
            record_trade e c nm act n price reason acct = (Inl InsufficientCash, acct)) \<and>
         (total_cost_of (portfolio acct) n price \<le> available_cash (portfolio acct) \<longrightarrow>
            fst (record_trade e c nm act n price reason acct) \<noteq> Inl InsufficientCash \<and>
            available_cash (portfolio (snd (record_trade e c nm act n price reason acct)))
              = available_cash (portfolio acct) - total_cost_of (portfolio acct) n price) \<and>
         (0 \<le> available_cash (portfolio acct) \<longrightarrow>
            0 \<le> available_cash (portfolio (snd (record_trade e c nm act n price reason acct))))"
  using assms
  by (auto simp add: record_trade_def Let_def total_cost_of_def)

theorem record_trade_insufficient_cash_witness:
  "(Buy = Buy \<or> Buy = Add) \<and>
   total_cost_of (portfolio fresh_account) 100000 1.5 > available_cash (portfolio fresh_account) \<and>
   record_trade day1 ''AAA'' ''Widget'' Buy 100000 1.5 [] fresh_account
     = (Inl InsufficientCash, fresh_account) \<and>
   total_cost_of (portfolio fresh_account) 1000 1.5 \<le> available_cash (portfolio fresh_account) \<and>
   available_cash (portfolio (snd (record_trade day1 ''AAA'' ''Widget'' Buy 1000 1.5 [] fresh_account)))
     = 98495 \<and>
   0 \<le> available_cash (portfolio fresh_account)"
proof -
  have buy: "Buy = Buy \<or> Buy = Add" by simp
  have cash: "available_cash (portfolio fresh_account) = 100000"
    by (simp add: fresh_account_def new_config_def post_init_def)
  have big: "total_cost_of (portfolio fresh_account) 100000 1.5 = 150045"
    by (simp add: total_cost_of_def fresh_account_def new_config_def post_init_def)
  have small: "total_cost_of (portfolio fresh_account) 1000 1.5 = 1505"
    by (simp add: total_cost_of_def fresh_account_def new_config_def post_init_def)
  from record_trade_insufficient_cash [OF buy, of fresh_account 100000 "1.5" day1 "''AAA''" "''Widget''" "[]"]
    cash big
  have r1: "record_trade day1 ''AAA'' ''Widget'' Buy 100000 1.5 [] fresh_account
     = (Inl InsufficientCash, fresh_account)" by simp
  from record_trade_insufficient_cash [OF buy, of fresh_account 1000 "1.5" day1 "''AAA''" "''Widget''" "[]"]
    cash small
  have r2: "available_cash (portfolio (snd (record_trade day1 ''AAA'' ''Widget'' Buy 1000 1.5 [] fresh_account)))
     = 98495" by simp
  from buy cash big small r1 r2 show ?thesis by simp
qed

section \<open>Daily snapshot\<close>

lemma first_snapshot_eq:
  "first_snapshot = \<lparr>snap_total_assets = 100000, snap_daily_profit_loss = 0, snap_daily_return_pct = 0,
      snap_total_return_pct = 0, snap_positions = [(''AAA'', widget)]\<rparr>"
  by (simp add: first_snapshot_def take_daily_snapshot_def previous_snapshot_def dict_keys_def Let_def
    total_assets_def total_market_value_def dict_values_def market_value_def total_return_pct_def
    held_widget_def new_config_def post_init_def widget_def)

lemma first_series_eq: "first_series = [(''2024-01-02'', first_snapshot)]"
  by (simp add: first_series_def first_snapshot_def take_daily_snapshot_def Let_def dict_set_def day1_def)

lemma previous_first: "previous_snapshot (today day2) first_series = Some first_snapshot"
  by (simp add: first_series_eq previous_snapshot_def dict_keys_def dict_get_def day2_def less_char_def)

lemma risen_assets: "total_assets risen_widget = 102000"
  by (simp add: risen_widget_def update_prices_def update_price_def total_assets_def
        total_market_value_def dict_values_def market_value_def example_defs op_defs)

text \<open>
  C9. \<open>take_daily_snapshot\<close> records a daily profit/loss equal to today's total assets
  minus the total assets of the previous snapshot, and a daily return equal to that
  difference divided by the previous total assets, as a percentage; both are 0 when
  there is no previous snapshot or the previous total assets are 0. The snapshot is
  stored under today's date. The instance below is the example of the claim: after a
  first snapshot with assets 100000, a snapshot taken with assets 102000 records a
  profit/loss of 2000 and a return of 2.0 per cent.
\<close>

theorem take_daily_snapshot_diff:
  "(\<forall>prev. previous_snapshot (today e) series = Some prev \<and> snap_total_assets prev \<noteq> 0 \<longrightarrow>
      snap_daily_profit_loss (fst (take_daily_snapshot e p series))
        = total_assets p - snap_total_assets prev \<and>
      snap_daily_return_pct (fst (take_daily_snapshot e p series))
        = (total_assets p - snap_total_assets prev) / snap_total_assets prev * 100) \<and>
   (previous_snapshot (today e) series = None \<or>
    (\<exists>prev. previous_snapshot (today e) series = Some prev \<and> snap_total_assets prev = 0) \<longrightarrow>
      snap_daily_profit_loss (fst (take_daily_snapshot e p series)) = 0 \<and>
      snap_daily_return_pct (fst (take_daily_snapshot e p series)) = 0) \<and>
   snap_total_assets (fst (take_daily_snapshot e p series)) = total_assets p \<and>
   dict_get (snd (take_daily_snapshot e p series)) (today e)
     = Some (fst (take_daily_snapshot e p series))"
  by (auto simp add: take_daily_snapshot_def Let_def dict_get_def dict_set_def update_conv')

theorem take_daily_snapshot_diff_witness:
  "previous_snapshot (today day2) first_series = Some first_snapshot \<and>
   snap_total_assets first_snapshot = 100000 \<and>
   total_assets risen_widget = 102000 \<and>
   snap_daily_profit_loss (fst (take_daily_snapshot day2 risen_widget first_series)) = 2000 \<and>
   snap_daily_return_pct (fst (take_daily_snapshot day2 risen_widget first_series)) = 2 \<and>
   previous_snapshot (today day1) [] = None \<and>
   snap_daily_profit_loss (fst (take_daily_snapshot day1 held_widget [])) = 0 \<and>
   snap_daily_return_pct (fst (take_daily_snapshot day1 held_widget [])) = 0"
proof -
  have prev: "previous_snapshot (today day2) first_series = Some first_snapshot"
    by (rule previous_first)
  have a1: "snap_total_assets first_snapshot = 100000"
    by (simp add: first_snapshot_eq)
  have a2: "total_assets risen_widget = 102000"
    by (rule risen_assets)
  have none: "previous_snapshot (today day1) [] = None"
    by (simp add: previous_snapshot_def dict_keys_def)
  from take_daily_snapshot_diff [of day2 first_series risen_widget] prev a1
  have "snap_daily_profit_loss (fst (take_daily_snapshot day2 risen_widget first_series))
          = total_assets risen_widget - snap_total_assets first_snapshot"
    and "snap_daily_return_pct (fst (take_daily_snapshot day2 risen_widget first_series))
          = (total_assets risen_widget - snap_total_assets first_snapshot)
              / snap_total_assets first_snapshot * 100"
    by simp_all
  with a1 a2 have d2: "snap_daily_profit_loss (fst (take_daily_snapshot day2 risen_widget first_series)) = 2000"
    and r2: "snap_daily_return_pct (fst (take_daily_snapshot day2 risen_widget first_series)) = 2"
    by simp_all
  from take_daily_snapshot_diff [of day1 "[]" held_widget] none
  have d1: "snap_daily_profit_loss (fst (take_daily_snapshot day1 held_widget [])) = 0"
    and r1: "snap_daily_return_pct (fst (take_daily_snapshot day1 held_widget [])) = 0"
    by simp_all
  from prev a1 a2 d2 r2 none d1 r1 show ?thesis by simp
qed

section \<open>The accuracy backtest\<close>

lemmas char_ord_simps = less_char_def less_eq_char_def

lemma sorted_three:
  "sort (dict_keys three_days) = [''2024-01-31'', ''2024-02-01'', ''2024-02-02'']"
  by (simp add: three_days_def dict_keys_def char_ord_simps)

lemma three_pairs:
  "consecutive (sort (dict_keys three_days))
     = [(''2024-01-31'', ''2024-02-01''), (''2024-02-01'', ''2024-02-02'')]"
  by (simp add: sorted_three consecutive_def)

lemma three_assets:
  "assets_on three_days ''2024-01-31'' = 100000"
  "assets_on three_days ''2024-02-01'' = 102000"
  "assets_on three_days ''2024-02-02'' = 101000"
  by (simp_all add: assets_on_def three_days_def dict_get_def snapshot_with_def get_default_def)

lemma three_held:
  "held_on three_days ''2024-01-31''"
  "held_on three_days ''2024-02-01''"
  by (simp_all add: held_on_def three_days_def dict_get_def snapshot_with_def get_default_def)

lemma three_predictions:
  "predictions three_days
     = [(''2024-01-31'', ''2024-02-01''), (''2024-02-01'', ''2024-02-02'')]"
  unfolding predictions_def three_pairs
  by (simp add: is_prediction_def three_assets three_held)

lemma three_graded:
  "graded three_days =
     [\<lparr>rec_date = ''2024-01-31'', rec_next_date = ''2024-02-01'', rec_prediction = Holding,
       rec_next_day_return = 2, rec_is_correct = True, rec_total_assets = 100000\<rparr>,
      \<lparr>rec_date = ''2024-02-01'', rec_next_date = ''2024-02-02'', rec_prediction = Holding,
       rec_next_day_return = - (50 / 51), rec_is_correct = False,
       rec_total_assets = 102000\<rparr>]"
  unfolding graded_def three_predictions
  by (simp add: record_of_def next_day_return_def three_assets)

lemma three_backtest:
  "backtest three_days =
     \<lparr>rep_total_predictions = 2, rep_correct_predictions = 1, rep_accuracy_rate = 50,
      rep_records = graded three_days,
      rep_monthly_accuracy =
        [\<lparr>row_month = ''2024-01'', row_total = 1, row_correct = 1, row_accuracy = 100\<rparr>,
         \<lparr>row_month = ''2024-02'', row_total = 1, row_correct = 0, row_accuracy = 0\<rparr>]\<rparr>"
  by (simp add: backtest_def Let_def three_graded percentage_def month_row_def month_of_def
        char_ord_simps)

subsection \<open>The loop over the dates\<close>

lemma consecutive_Cons2: "consecutive (d # nd # ds) = (d, nd) # consecutive (nd # ds)"
  by (simp add: consecutive_def)

lemma consecutive_short: "consecutive [] = []" "consecutive [d] = []"
  by (simp_all add: consecutive_def)

lemma percent_positive: "(0 < x * 100) = (0 < (x::real))"
  by (simp add: zero_less_mult_iff)

lemma grade_day_eq:
  assumes "dict_get snapshots d = Some cur" and "dict_get snapshots nd = Some nxt"
  shows "grade_day d cur nd nxt t =
           (if is_prediction snapshots (d, nd)
            then t\<lparr>total_predictions := total_predictions t + 1,
                   correct_predictions := correct_predictions t
                     + (if rec_is_correct (record_of snapshots (d, nd)) then 1 else 0),
                   accuracy_records := accuracy_records t @ [record_of snapshots (d, nd)]\<rparr>
            else t)"
proof -
  have a: "assets_on snapshots d = get_default (doc_total_assets cur) 0"
    and b: "assets_on snapshots nd = get_default (doc_total_assets nxt) 0"
    and h: "held_on snapshots d = (get_default (doc_positions_snapshot cur) [] \<noteq> [])"
    using assms by (simp_all add: assets_on_def held_on_def)
  show ?thesis
    unfolding grade_day_def Let_def is_prediction_def record_of_def next_day_return_def
      fst_conv snd_conv a b h
    by (simp only: percent_positive) simp
qed

lemma tally_of_Nil: "tally_of snapshots [] t = t"
  by (simp add: tally_of_def)

lemma grade_days_eq:
  assumes "set ds \<subseteq> set (dict_keys snapshots)"
  shows "grade_days snapshots ds t = Inr (tally_of snapshots (consecutive ds) t)"
  using assms
proof (induction snapshots ds t rule: grade_days.induct)
  case (1 snapshots d next_date ds t)
  from "1.prems" have "d \<in> fst ` set snapshots" and "next_date \<in> fst ` set snapshots"
    by (simp_all add: dict_keys_def)
  then have "dict_get snapshots d \<noteq> None" and "dict_get snapshots next_date \<noteq> None"
    by (simp_all add: dict_get_def map_of_eq_None_iff)
  then obtain cur nxt where cur: "dict_get snapshots d = Some cur"
    and nxt: "dict_get snapshots next_date = Some nxt"
    by blast
  from "1.prems" have sub: "set (next_date # ds) \<subseteq> set (dict_keys snapshots)"
    by simp
  have "grade_days snapshots (d # next_date # ds) t
          = grade_days snapshots (next_date # ds) (grade_day d cur next_date nxt t)"
    using cur nxt by simp
  also have "\<dots> = Inr (tally_of snapshots (consecutive (next_date # ds))
                        (grade_day d cur next_date nxt t))"
    using "1.IH" [OF cur nxt sub] .
  also have "tally_of snapshots (consecutive (next_date # ds)) (grade_day d cur next_date nxt t)
               = tally_of snapshots (consecutive (d # next_date # ds)) t"
    by (simp add: grade_day_eq [OF cur nxt] consecutive_Cons2 tally_of_def Let_def)
  finally show ?case .
qed (simp_all add: consecutive_short tally_of_Nil)


subsection \<open>The monthly tally\<close>

lemma bump_Nil: "bump [] m st = st"
  by (simp add: bump_def)

lemma bump_Cons_same: "month_of r = m \<Longrightarrow> bump rs m (bump [r] m st) = bump (r # rs) m st"
  by (simp add: bump_def)

lemma bump_Cons_other: "month_of r \<noteq> m \<Longrightarrow> bump (r # rs) m st = bump rs m st"
  by (simp add: bump_def)

lemma count_month_eq:
  "count_month r ms = AList.update (month_of r) (bump [r] (month_of r) (stats_in ms (month_of r))) ms"
proof (cases "map_of ms (month_of r)")
  case None
  then show ?thesis
    by (simp add: count_month_def Let_def dict_get_def dict_set_def month_of_def bump_def
          stats_in_def no_stats_def)
next
  case (Some st)
  then show ?thesis
    by (cases st)
       (simp add: count_month_def Let_def dict_get_def dict_set_def month_of_def bump_def
          stats_in_def)
qed

lemma count_month_lookup:
  "map_of (count_month r ms) m
     = (if m = month_of r then Some (bump [r] m (stats_in ms m)) else map_of ms m)"
  by (simp add: count_month_eq update_conv')

lemma fold_count_month_lookup:
  "map_of (fold count_month rs ms) m
     = (if m \<in> month_of ` set rs \<or> m \<in> fst ` set ms
        then Some (bump rs m (stats_in ms m)) else None)"
proof (induction rs arbitrary: ms)
  case Nil
  show ?case
  proof (cases "map_of ms m")
    case None
    then have "m \<notin> fst ` set ms" by (simp add: map_of_eq_None_iff)
    with None show ?thesis by simp
  next
    case (Some st)
    then have "m \<in> fst ` set ms" by (force dest: map_of_SomeD)
    with Some show ?thesis by (simp add: bump_Nil stats_in_def)
  qed
next
  case (Cons r rs)
  have keys: "fst ` set (count_month r ms) = insert (month_of r) (fst ` set ms)"
    by (simp add: count_month_eq dom_update)
  have step: "map_of (fold count_month (r # rs) ms) m
      = (if m \<in> month_of ` set rs \<or> m \<in> insert (month_of r) (fst ` set ms)
         then Some (bump rs m (stats_in (count_month r ms) m)) else None)"
    by (simp add: Cons.IH keys)
  show ?case
  proof (cases "m = month_of r")
    case True
    then have "stats_in (count_month r ms) m = bump [r] m (stats_in ms m)"
      by (simp add: stats_in_def count_month_lookup)
    with True have "bump rs m (stats_in (count_month r ms) m) = bump (r # rs) m (stats_in ms m)"
      by (simp add: bump_Cons_same)
    with True step show ?thesis
      by simp
  next
    case False
    then have "stats_in (count_month r ms) m = stats_in ms m"
      by (simp add: stats_in_def count_month_lookup)
    with False have "bump rs m (stats_in (count_month r ms) m) = bump (r # rs) m (stats_in ms m)"
      by (simp add: bump_Cons_other)
    with False step show ?thesis
      by simp
  qed
qed

lemma fold_count_month_distinct:
  "distinct (map fst ms) \<Longrightarrow> distinct (map fst (fold count_month rs ms))"
  by (induction rs arbitrary: ms) (simp_all add: count_month_eq distinct_update)

lemma monthly_row_of_bump: "monthly_row_of (m, bump rs m no_stats) = month_row rs m"
  by (simp add: monthly_row_of_def month_row_def bump_def no_stats_def percentage_def)

lemma sorted_months:
  "sort_key fst (fold count_month rs [])
     = map (\<lambda>m. (m, bump rs m no_stats)) (sort (remdups (map month_of rs)))"
proof (rule sort_key_inj_key_eq)
  let ?L = "fold count_month rs []"
  let ?ys = "map (\<lambda>m. (m, bump rs m no_stats)) (sort (remdups (map month_of rs)))"
  have dist: "distinct (map fst ?L)"
    by (rule fold_count_month_distinct) simp
  have lookup: "map_of ?L m = (if m \<in> month_of ` set rs then Some (bump rs m no_stats) else None)"
    for m
    by (simp add: fold_count_month_lookup stats_in_def)
  have "set ?L = (\<lambda>m. (m, bump rs m no_stats)) ` month_of ` set rs"
  proof (intro set_eqI iffI)
    fix kv assume "kv \<in> set ?L"
    then have "map_of ?L (fst kv) = Some (snd kv)"
      using dist by simp
    then show "kv \<in> (\<lambda>m. (m, bump rs m no_stats)) ` month_of ` set rs"
      by (cases kv) (auto simp: lookup split: if_splits)
  next
    fix kv assume "kv \<in> (\<lambda>m. (m, bump rs m no_stats)) ` month_of ` set rs"
    then obtain m where m: "m \<in> month_of ` set rs" and kv: "kv = (m, bump rs m no_stats)"
      by blast
    then have "map_of ?L m = Some (bump rs m no_stats)"
      by (simp add: lookup)
    then show "kv \<in> set ?L"
      using kv by (simp add: map_of_SomeD)
  qed
  also have "\<dots> = set ?ys"
    by simp
  finally have "set ?L = set ?ys" .
  moreover from dist have "distinct ?L"
    by (simp add: distinct_map)
  moreover have "distinct ?ys"
    by (simp add: distinct_map inj_on_def)
  ultimately show "mset ?L = mset ?ys"
    by (simp only: set_eq_iff_mset_eq_distinct)
  from dist show "inj_on fst (set ?L)"
    by (simp add: distinct_map)
  show "sorted (map fst ?ys)"
    by (simp add: comp_def)
qed

lemma monthly_accuracy_of_eq:
  "monthly_accuracy_of rs = map (month_row rs) (sort (remdups (map month_of rs)))"
  by (simp add: monthly_accuracy_of_def sorted_months comp_def monthly_row_of_bump)


subsection \<open>The report\<close>

lemma get_ai_accuracy_eq: "get_ai_accuracy snapshots = Inr (backtest snapshots)"
proof -
  have "set (sort (dict_keys snapshots)) \<subseteq> set (dict_keys snapshots)"
    by simp
  then have "grade_days snapshots (sort (dict_keys snapshots))
               \<lparr>accuracy_records = [], total_predictions = 0, correct_predictions = 0\<rparr>
          = Inr \<lparr>accuracy_records = graded snapshots,
                 total_predictions = length (graded snapshots),
                 correct_predictions = length (filter rec_is_correct (graded snapshots))\<rparr>"
    by (simp add: grade_days_eq tally_of_def graded_def predictions_def Let_def)
  then show ?thesis
    by (simp add: get_ai_accuracy_def backtest_def Let_def percentage_def
          monthly_accuracy_of_eq)
qed

lemma dates_of_graded:
  "map rec_date (graded snapshots)
     = filter (\<lambda>d. assets_on snapshots d > 0 \<and> held_on snapshots d)
         (butlast (sort (dict_keys snapshots)))"
proof -
  have "map rec_date (graded snapshots) = map fst (predictions snapshots)"
    by (simp add: graded_def record_of_def comp_def)
  also have "\<dots> = filter (\<lambda>d. assets_on snapshots d > 0 \<and> held_on snapshots d)
                     (map fst (consecutive (sort (dict_keys snapshots))))"
    by (simp add: predictions_def filter_map comp_def is_prediction_def [abs_def])
  also have "map fst (consecutive (sort (dict_keys snapshots)))
               = butlast (sort (dict_keys snapshots))"
    by (simp add: consecutive_def)
  finally show ?thesis .
qed

lemma set_butlast_distinct:
  assumes "distinct xs" and "x \<in> set xs"
  shows "x \<in> set (butlast xs) \<longleftrightarrow> x \<noteq> last xs"
proof -
  from assms(2) have "xs \<noteq> []" by auto
  then have split: "xs = butlast xs @ [last xs]" by simp
  with assms(1) have "distinct (butlast xs @ [last xs])" by simp
  then have "last xs \<notin> set (butlast xs)" by simp
  moreover from split assms(2) have "x \<in> set (butlast xs) \<or> x = last xs"
    by (metis Un_iff insert_iff list.set(2) set_append empty_iff empty_set)
  ultimately show ?thesis by auto
qed

text \<open>
  C7. \<open>get_ai_accuracy\<close> always returns a report, and it is the backtest of the
  specification: over the dates sorted ascending, a date is counted as a prediction
  exactly when it is not the last date, its assets are positive and its position
  snapshot is non-empty; a prediction is correct exactly when the return to the next
  date, \<open>(assets[d+1] - assets[d]) / assets[d]\<close>, is positive; the overall accuracy is
  correct over total, as a percentage, and 0 without predictions; and the records are
  tallied per month, the month being the \<open>YYYY-MM\<close> prefix of the date, with the
  totals and the correct counts of each month, months ascending.
\<close>

theorem get_ai_accuracy_backtest:
  assumes "distinct (dict_keys snapshots)"
  shows "get_ai_accuracy snapshots = Inr (backtest snapshots) \<and>
         (\<forall>d\<in>set (dict_keys snapshots).
            d \<in> set (map rec_date (graded snapshots)) \<longleftrightarrow>
              d \<noteq> last (sort (dict_keys snapshots)) \<and>
              assets_on snapshots d > 0 \<and> held_on snapshots d) \<and>
         (\<forall>r\<in>set (graded snapshots).
            rec_is_correct r \<longleftrightarrow>
              (assets_on snapshots (rec_next_date r) - assets_on snapshots (rec_date r))
                 / assets_on snapshots (rec_date r) > 0)"
proof (intro conjI ballI)
  show "get_ai_accuracy snapshots = Inr (backtest snapshots)"
    by (rule get_ai_accuracy_eq)
next
  fix d assume "d \<in> set (dict_keys snapshots)"
  with assms have "d \<in> set (butlast (sort (dict_keys snapshots)))
                     \<longleftrightarrow> d \<noteq> last (sort (dict_keys snapshots))"
    by (intro set_butlast_distinct) simp_all
  then show "d \<in> set (map rec_date (graded snapshots)) \<longleftrightarrow>
              d \<noteq> last (sort (dict_keys snapshots)) \<and>
              assets_on snapshots d > 0 \<and> held_on snapshots d"
    by (auto simp add: dates_of_graded)
next
  fix r assume "r \<in> set (graded snapshots)"
  then show "rec_is_correct r \<longleftrightarrow>
              (assets_on snapshots (rec_next_date r) - assets_on snapshots (rec_date r))
                 / assets_on snapshots (rec_date r) > 0"
    by (auto simp add: graded_def record_of_def next_day_return_def)
qed

theorem get_ai_accuracy_backtest_witness:
  "distinct (dict_keys three_days) \<and>
   get_ai_accuracy three_days =
     Inr \<lparr>rep_total_predictions = 2, rep_correct_predictions = 1, rep_accuracy_rate = 50,
          rep_records =
            [\<lparr>rec_date = ''2024-01-31'', rec_next_date = ''2024-02-01'',
              rec_prediction = Holding, rec_next_day_return = 2, rec_is_correct = True,
              rec_total_assets = 100000\<rparr>,
             \<lparr>rec_date = ''2024-02-01'', rec_next_date = ''2024-02-02'',
              rec_prediction = Holding, rec_next_day_return = - (50 / 51),
              rec_is_correct = False, rec_total_assets = 102000\<rparr>],
          rep_monthly_accuracy =
            [\<lparr>row_month = ''2024-01'', row_total = 1, row_correct = 1, row_accuracy = 100\<rparr>,
             \<lparr>row_month = ''2024-02'', row_total = 1, row_correct = 0, row_accuracy = 0\<rparr>]\<rparr> \<and>
   ''2024-02-02'' \<in> set (dict_keys three_days) \<and>
   ''2024-02-02'' = last (sort (dict_keys three_days)) \<and>
   ''2024-02-02'' \<notin> set (map rec_date (graded three_days))"
proof -
  have dist: "distinct (dict_keys three_days)"
    by (simp add: three_days_def dict_keys_def)
  have key: "''2024-02-02'' \<in> set (dict_keys three_days)"
    by (simp add: three_days_def dict_keys_def)
  have lst: "''2024-02-02'' = last (sort (dict_keys three_days))"
    by (simp add: sorted_three)
  note inst = get_ai_accuracy_backtest [OF dist]
  from inst have "get_ai_accuracy three_days = Inr (backtest three_days)"
    by blast
  then have rep: "get_ai_accuracy three_days =
     Inr \<lparr>rep_total_predictions = 2, rep_correct_predictions = 1, rep_accuracy_rate = 50,
          rep_records =
            [\<lparr>rec_date = ''2024-01-31'', rec_next_date = ''2024-02-01'',
              rec_prediction = Holding, rec_next_day_return = 2, rec_is_correct = True,
              rec_total_assets = 100000\<rparr>,
             \<lparr>rec_date = ''2024-02-01'', rec_next_date = ''2024-02-02'',
              rec_prediction = Holding, rec_next_day_return = - (50 / 51),
              rec_is_correct = False, rec_total_assets = 102000\<rparr>],
          rep_monthly_accuracy =
            [\<lparr>row_month = ''2024-01'', row_total = 1, row_correct = 1, row_accuracy = 100\<rparr>,
             \<lparr>row_month = ''2024-02'', row_total = 1, row_correct = 0, row_accuracy = 0\<rparr>]\<rparr>"
    by (simp only: three_backtest three_graded)
  from inst key lst have "''2024-02-02'' \<notin> set (map rec_date (graded three_days))"
    by blast
  with dist rep key lst show ?thesis
    by blast
qed

end
